theory Spec2Isabelle
  imports Complex_Main
begin

section \<open>JavaScript values\<close>

text \<open>
  The handlers of \<^verbatim>\<open>backend/controllers/userController.ts\<close> are untyped JavaScript in
  effect (the file opens with \<^verbatim>\<open>//@ts-nocheck\<close>): request parameters, query-string
  values and body fields are tested for truthiness and compared with \<^verbatim>\<open>===\<close>. A value
  is therefore one of the JSON shapes, \<^verbatim>\<open>undefined\<close> (an absent property), or an
  ObjectId (an object, always truthy, whose \<^verbatim>\<open>toString()\<close> is its hex rendering; here
  it is carried as that rendering). Numbers that arrive through JSON are finite, so a
  number is a rational and is falsy exactly when it is zero.
\<close>

datatype jsval =
    JUndefined
  | JNull
  | JBool bool
  | JNum rat
  | JStr string
  | JOid string
  | JArr "jsval list"
  | JObj "(string \<times> jsval) list"

fun truthy :: "jsval \<Rightarrow> bool" where
  "truthy JUndefined = False"
| "truthy JNull = False"
| "truthy (JBool b) = b"
| "truthy (JNum n) = (n \<noteq> 0)"
| "truthy (JStr s) = (s \<noteq> [])"
| "truthy (JOid i) = True"
| "truthy (JArr xs) = True"
| "truthy (JObj kvs) = True"

text \<open>Property access \<^verbatim>\<open>o.k\<close> on an object given by its key/value pairs.\<close>

definition get_prop :: "(string \<times> jsval) list \<Rightarrow> string \<Rightarrow> jsval" where
  "get_prop kvs k = (case map_of kvs k of None \<Rightarrow> JUndefined | Some v \<Rightarrow> v)"

text \<open>Property access on a value: a primitive or an array has none of the keys used here.\<close>

fun get_field :: "jsval \<Rightarrow> string \<Rightarrow> jsval" where
  "get_field (JObj kvs) k = get_prop kvs k"
| "get_field v k = JUndefined"

text \<open>\<^verbatim>\<open>delete o.k\<close>.\<close>

definition delete_prop :: "string \<Rightarrow> (string \<times> jsval) list \<Rightarrow> (string \<times> jsval) list" where
  "delete_prop k kvs = filter (\<lambda>kv. fst kv \<noteq> k) kvs"

text \<open>
  Schema-typed string paths of a stored document are \<open>string option\<close> (\<open>None\<close>: the
  path is unset). \<^verbatim>\<open>x || ''\<close> and \<^verbatim>\<open>x || null\<close> on such a path:
\<close>

definition of_opt :: "string option \<Rightarrow> jsval" where
  "of_opt x = (case x of None \<Rightarrow> JUndefined | Some s \<Rightarrow> JStr s)"

definition or_empty :: "string option \<Rightarrow> string" where
  "or_empty x = (case x of None \<Rightarrow> [] | Some s \<Rightarrow> s)"

definition or_null :: "string option \<Rightarrow> jsval" where
  "or_null x = (if truthy (of_opt x) then of_opt x else JNull)"

text \<open>
  A string is carried as the bytes of its UTF-8 encoding. \<^verbatim>\<open>String.prototype.trim\<close>
  removes, from both ends, the white space and line terminators of the language: tab,
  line feed, vertical tab, form feed, carriage return, space, U+00A0, U+1680, U+2000 to
  U+200A, U+2028, U+2029, U+202F, U+205F, U+3000 and U+FEFF. \<open>white_space\<close> lists
  their encodings; \<open>strip ws s\<close> removes from the front of \<open>s\<close> every leading
  occurrence of a sequence of \<open>ws\<close>.
\<close>

definition white_space :: "string list" where
  "white_space =
     [[CHR 0x09], [CHR 0x0A], [CHR 0x0B], [CHR 0x0C], [CHR 0x0D], [CHR 0x20],
      [CHR 0xC2, CHR 0xA0],
      [CHR 0xE1, CHR 0x9A, CHR 0x80],
      [CHR 0xE2, CHR 0x80, CHR 0x80], [CHR 0xE2, CHR 0x80, CHR 0x81],
      [CHR 0xE2, CHR 0x80, CHR 0x82], [CHR 0xE2, CHR 0x80, CHR 0x83],
      [CHR 0xE2, CHR 0x80, CHR 0x84], [CHR 0xE2, CHR 0x80, CHR 0x85],
      [CHR 0xE2, CHR 0x80, CHR 0x86], [CHR 0xE2, CHR 0x80, CHR 0x87],
      [CHR 0xE2, CHR 0x80, CHR 0x88], [CHR 0xE2, CHR 0x80, CHR 0x89],
      [CHR 0xE2, CHR 0x80, CHR 0x8A],
      [CHR 0xE2, CHR 0x80, CHR 0xA8], [CHR 0xE2, CHR 0x80, CHR 0xA9],
      [CHR 0xE2, CHR 0x80, CHR 0xAF],
      [CHR 0xE2, CHR 0x81, CHR 0x9F],
      [CHR 0xE3, CHR 0x80, CHR 0x80],
      [CHR 0xEF, CHR 0xBB, CHR 0xBF]]"

function strip :: "string list \<Rightarrow> string \<Rightarrow> string" where
  "strip ws s =
     (case find (\<lambda>w. w \<noteq> [] \<and> take (length w) s = w) ws of
        None \<Rightarrow> s
      | Some w \<Rightarrow> strip ws (drop (length w) s))"
  by pat_completeness auto
termination
proof (relation "measure (\<lambda>(ws, s). length s)")
  show "wf (measure (\<lambda>(ws, s). length s))"
    by simp
next
  fix ws :: "string list" and s w :: string
  assume "find (\<lambda>w. w \<noteq> [] \<and> take (length w) s = w) ws = Some w"
  then have w: "w \<noteq> []" and t: "take (length w) s = w"
    by (auto simp: find_Some_iff)
  from t have "length (take (length w) s) = length w"
    by (simp only:)
  then have "length w \<le> length s"
    by (simp add: min_def split: if_splits)
  with w show "((ws, drop (length w) s), (ws, s)) \<in> measure (\<lambda>(ws, s). length s)"
    by (cases w) auto
qed

declare strip.simps [simp del]

definition trim :: "string \<Rightarrow> string" where
  "trim s = rev (strip (map rev white_space) (rev (strip white_space s)))"

text \<open>\<^verbatim>\<open>Array.prototype.findIndex\<close>, with \<open>None\<close> for \<^verbatim>\<open>-1\<close>.\<close>

fun findIndex :: "('a \<Rightarrow> bool) \<Rightarrow> 'a list \<Rightarrow> nat option" where
  "findIndex P [] = None"
| "findIndex P (x # xs) =
     (if P x then Some 0
      else (case findIndex P xs of None \<Rightarrow> None | Some i \<Rightarrow> Some (Suc i)))"

section \<open>Documents and the store\<close>

text \<open>
  The \<^verbatim>\<open>User\<close> and \<^verbatim>\<open>Group\<close> models are imported, not defined, by the controller;
  the records below hold the paths the handlers read (a field is named after the
  document and the path). \<open>user_other\<close> stands for the remaining
  paths of a user document. Array paths always materialise as arrays, so
  \<^verbatim>\<open>members\<close> and \<^verbatim>\<open>additionalGroups\<close> are lists; an element of
  \<^verbatim>\<open>additionalGroups\<close> may be \<^verbatim>\<open>null\<close> (\<open>None\<close>) or lack its \<^verbatim>\<open>groupID\<close>, the
  two cases \<^verbatim>\<open>getAllUserGroups\<close> guards against.
\<close>

record member =
  member_user :: string
  member_role :: string
  member_familialRelation :: "string option"

record group_doc =
  group_id :: string
  group_name :: string
  group_members :: "member list"

record additional_group =
  ag_groupID :: "string option"

record notification_prefs =
  doNotDisturb :: bool
  newFeed :: bool
  newActivity :: bool
  invites :: bool

record user_doc =
  user_id :: string
  user_email :: "string option"
  user_firstName :: "string option"
  user_lastName :: "string option"
  user_imageURL :: "string option"
  user_groupID :: "string option"
  user_additionalGroups :: "additional_group option list"
  user_notificationPreferences :: "notification_prefs option"
  user_other :: "(string \<times> jsval) list"

text \<open>An awaited store call either resolves to a value or rejects with an error message.\<close>

datatype 'a outcome = Resolved 'a | Rejected string

text \<open>
  The store: the two collections, and the behaviour of what the controller runs on but
  does not define: \<open>castObjectId\<close>, the store client's cast of a query value to a
  document id (\<open>Inl\<close>: the query rejects with that message); \<open>userSet\<close>, what
  \<^verbatim>\<open>{ $set: updates }\<close> with \<^verbatim>\<open>runValidators\<close> makes of a user document under the
  User schema (\<open>Inl\<close>: a cast or validation error); \<open>groupValidate\<close>, the validation
  error, if any, that \<^verbatim>\<open>group.save()\<close> raises; \<open>nullReadMessage\<close>, the message of the
  error that the JavaScript engine throws when \<^verbatim>\<open>groupID\<close> is read of \<^verbatim>\<open>null\<close>.
\<close>

record db =
  db_users :: "user_doc list"
  db_groups :: "group_doc list"
  castObjectId :: "jsval \<Rightarrow> string + string"
  userSet :: "(string \<times> jsval) list \<Rightarrow> user_doc \<Rightarrow> string + user_doc"
  groupValidate :: "group_doc \<Rightarrow> string option"
  nullReadMessage :: string

fun replace_first :: "('a \<Rightarrow> bool) \<Rightarrow> 'a \<Rightarrow> 'a list \<Rightarrow> 'a list" where
  "replace_first P y [] = []"
| "replace_first P y (x # xs) = (if P x then y # xs else x # replace_first P y xs)"

definition User_findById :: "db \<Rightarrow> jsval \<Rightarrow> user_doc option outcome" where
  "User_findById d i =
     (case castObjectId d i of
        Inl e \<Rightarrow> Rejected e
      | Inr p \<Rightarrow> Resolved (find (\<lambda>u. user_id u = p) (db_users d)))"

definition Group_findById :: "db \<Rightarrow> jsval \<Rightarrow> group_doc option outcome" where
  "Group_findById d i =
     (case castObjectId d i of
        Inl e \<Rightarrow> Rejected e
      | Inr p \<Rightarrow> Resolved (find (\<lambda>g. group_id g = p) (db_groups d)))"

text \<open>
  \<^verbatim>\<open>Model.find({ _id: { $in: ids } })\<close>, where \<open>ids\<close> are renderings of stored
  ObjectIds: the documents of the collection whose id is among them. The
  \<^verbatim>\<open>select\<close> projections are not modelled: a handler reads only paths it selects.
\<close>

definition User_find_in :: "db \<Rightarrow> string list \<Rightarrow> user_doc list" where
  "User_find_in d ids = filter (\<lambda>u. user_id u \<in> set ids) (db_users d)"

definition Group_find_in :: "db \<Rightarrow> string list \<Rightarrow> group_doc list" where
  "Group_find_in d ids = filter (\<lambda>g. group_id g \<in> set ids) (db_groups d)"

text \<open>
  \<^verbatim>\<open>User.findByIdAndUpdate(id, { $set: sets }, { new: true, runValidators: true })\<close>:
  the updated document (or \<^verbatim>\<open>null\<close>) and the store afterwards.
\<close>

definition User_findByIdAndUpdate ::
  "db \<Rightarrow> jsval \<Rightarrow> (string \<times> jsval) list \<Rightarrow> user_doc option outcome \<times> db" where
  "User_findByIdAndUpdate d i sets =
     (case castObjectId d i of
        Inl e \<Rightarrow> (Rejected e, d)
      | Inr p \<Rightarrow>
          (case find (\<lambda>u. user_id u = p) (db_users d) of
             None \<Rightarrow> (Resolved None, d)
           | Some u \<Rightarrow>
               (case userSet d sets u of
                  Inl e \<Rightarrow> (Rejected e, d)
                | Inr u' \<Rightarrow>
                    (Resolved (Some u'),
                     d\<lparr>db_users := replace_first (\<lambda>x. user_id x = p) u' (db_users d)\<rparr>))))"

text \<open>\<^verbatim>\<open>group.save()\<close>: the document replaces the stored one with its id.\<close>

definition Group_save :: "db \<Rightarrow> group_doc \<Rightarrow> db outcome" where
  "Group_save d g =
     (case groupValidate d g of
        Some e \<Rightarrow> Rejected e
      | None \<Rightarrow>
          Resolved (d\<lparr>db_groups := replace_first (\<lambda>x. group_id x = group_id g) g (db_groups d)\<rparr>))"

section \<open>Responses\<close>

text \<open>
  \<^verbatim>\<open>res.status(s).json(b)\<close>: the status and the value handed to \<^verbatim>\<open>json\<close>.
\<close>

record response =
  status :: nat
  body :: jsval

definition respond :: "nat \<Rightarrow> jsval \<Rightarrow> response" where
  "respond s b = \<lparr>status = s, body = b\<rparr>"

definition message :: "string \<Rightarrow> jsval" where
  "message m = JObj [(''message'', JStr m)]"

definition error_body :: "string \<Rightarrow> jsval" where
  "error_body e = JObj [(''error'', JStr e)]"

section \<open>The admin-authorization check\<close>

text \<open>
  \<^verbatim>\<open>isUserAdminOfGroup\<close> (lines 20-37). The \<^verbatim>\<open>catch\<close> turns a rejected lookup into
  \<^verbatim>\<open>false\<close>. A found member is an object, so \<^verbatim>\<open>!!adminMember\<close> is \<^verbatim>\<open>true\<close>.
\<close>

definition isUserAdminOfGroup :: "db \<Rightarrow> jsval \<Rightarrow> jsval \<Rightarrow> bool" where
  "isUserAdminOfGroup d userID groupID =
     (case Group_findById d groupID of
        Rejected e \<Rightarrow> False
      | Resolved None \<Rightarrow> False
      | Resolved (Some g) \<Rightarrow>
          (case find (\<lambda>m. JStr (member_user m) = userID \<and> member_role m = ''admin'') (group_members g) of
             None \<Rightarrow> False
           | Some adminMember \<Rightarrow> True))"

section \<open>Documents as response values\<close>

definition oid_opt :: "string option \<Rightarrow> jsval" where
  "oid_opt x = (case x of None \<Rightarrow> JUndefined | Some i \<Rightarrow> JOid i)"

definition prefs_json :: "notification_prefs \<Rightarrow> jsval" where
  "prefs_json p =
     JObj [(''doNotDisturb'', JBool (doNotDisturb p)), (''newFeed'', JBool (newFeed p)),
           (''newActivity'', JBool (newActivity p)), (''invites'', JBool (invites p))]"

definition ag_json :: "additional_group option \<Rightarrow> jsval" where
  "ag_json x = (case x of None \<Rightarrow> JNull | Some g \<Rightarrow> JObj [(''groupID'', oid_opt (ag_groupID g))])"

definition user_json :: "user_doc \<Rightarrow> jsval" where
  "user_json u =
     JObj ([(''_id'', JOid (user_id u)),
            (''email'', of_opt (user_email u)),
            (''firstName'', of_opt (user_firstName u)),
            (''lastName'', of_opt (user_lastName u)),
            (''imageURL'', of_opt (user_imageURL u)),
            (''groupID'', oid_opt (user_groupID u)),
            (''additionalGroups'', JArr (map ag_json (user_additionalGroups u))),
            (''notificationPreferences'',
               (case user_notificationPreferences u of
                  None \<Rightarrow> JUndefined | Some p \<Rightarrow> prefs_json p))]
           @ user_other u)"

section \<open>The handlers\<close>

text \<open>
  A handler takes the store, the route parameters (strings, or \<^verbatim>\<open>undefined\<close> when the
  route has none), the query-string value or the parsed JSON body it reads, and returns
  the response it sends; a handler that writes returns the store afterwards as well.
  A rejected store call is the handler's \<^verbatim>\<open>catch\<close> branch. The source's local
  \<^verbatim>\<open>group\<close> is written \<open>grp\<close> here.
\<close>

text \<open>\<^verbatim>\<open>checkUserAdminStatus\<close> (lines 39-87).\<close>

definition checkUserAdminStatus :: "db \<Rightarrow> jsval \<Rightarrow> jsval \<Rightarrow> response" where
  "checkUserAdminStatus d userID groupID =
     (if \<not> truthy userID \<or> \<not> truthy groupID
      then respond 400 (message ''User ID and Group ID are required'')
      else
        (case User_findById d userID of
           Rejected e \<Rightarrow> respond 500 (error_body e)
         | Resolved None \<Rightarrow> respond 404 (message ''User not found'')
         | Resolved (Some user) \<Rightarrow>
             (case Group_findById d groupID of
                Rejected e \<Rightarrow> respond 500 (error_body e)
              | Resolved None \<Rightarrow> respond 404 (message ''Group not found'')
              | Resolved (Some grp) \<Rightarrow>
                  (let isAdmin = isUserAdminOfGroup d userID groupID in
                   case find (\<lambda>m. JStr (member_user m) = userID) (group_members grp) of
                     None \<Rightarrow>
                       respond 200
                         (JObj [(''isAdmin'', JBool False),
                                (''isMember'', JBool False),
                                (''message'', JStr ''User is not a member of this group'')])
                   | Some memberInfo \<Rightarrow>
                       respond 200
                         (JObj [(''isAdmin'', JBool isAdmin),
                                (''isMember'', JBool True),
                                (''role'', JStr (member_role memberInfo)),
                                (''familialRelation'',
                                   or_null (member_familialRelation memberInfo)),
                                (''groupName'', JStr (group_name grp))])))))"

text \<open>
  \<^verbatim>\<open>provideAdditionalUserInfo\<close> (lines 89-133). Its \<^verbatim>\<open>catch\<close> block is empty: when
  the update rejects, no response is sent (\<open>None\<close>).
\<close>

definition provideAdditionalUserInfo ::
  "db \<Rightarrow> jsval \<Rightarrow> (string \<times> jsval) list \<Rightarrow> response option \<times> db" where
  "provideAdditionalUserInfo d userID reqBody =
     (let firstName = get_prop reqBody ''firstName'';
          lastName = get_prop reqBody ''lastName'';
          dateOfBirth = get_prop reqBody ''dateOfBirth'';
          gender = get_prop reqBody ''gender'';
          weight = get_prop reqBody ''weight'';
          height = get_prop reqBody ''height''
      in
        if \<not> truthy firstName \<or> \<not> truthy lastName \<or> \<not> truthy dateOfBirth
           \<or> \<not> truthy gender \<or> \<not> truthy weight \<or> \<not> truthy height
        then (Some (respond 400 (message ''Please fill out all fields to complete onboarding'')), d)
        else
          (case User_findByIdAndUpdate d userID
                  [(''firstName'', firstName), (''lastName'', lastName),
                   (''dateOfBirth'', dateOfBirth), (''gender'', gender),
                   (''weight'', weight), (''height'', height)] of
             (Rejected e, d') \<Rightarrow> (None, d')
           | (Resolved None, d') \<Rightarrow> (Some (respond 404 (message ''User not found'')), d')
           | (Resolved (Some updatedUser), d') \<Rightarrow>
               (Some (respond 200
                  (JObj [(''message'', JStr ''Additional info saved successfully''),
                         (''user'', user_json updatedUser)])), d')))"

text \<open>
  \<^verbatim>\<open>getAllUserGroups\<close> (lines 136-186). \<open>pushAdditional\<close> is the \<^verbatim>\<open>for ... of\<close>
  loop of lines 157-161, with \<^verbatim>\<open>groupIDs\<close> as its accumulator: an element that is
  \<^verbatim>\<open>null\<close> or has no \<^verbatim>\<open>groupID\<close> is passed over.
\<close>

fun pushAdditional :: "additional_group option list \<Rightarrow> string list \<Rightarrow> string list" where
  "pushAdditional [] groupIDs = groupIDs"
| "pushAdditional (grp # rest) groupIDs =
     (case grp of
        None \<Rightarrow> pushAdditional rest groupIDs
      | Some g \<Rightarrow>
          (case ag_groupID g of
             None \<Rightarrow> pushAdditional rest groupIDs
           | Some i \<Rightarrow> pushAdditional rest (groupIDs @ [i])))"

definition getAllUserGroups :: "db \<Rightarrow> jsval \<Rightarrow> response" where
  "getAllUserGroups d userID =
     (case User_findById d userID of
        Rejected e \<Rightarrow>
          respond 500 (JObj [(''message'', JStr ''Failed to fetch user groups''),
                             (''error'', JStr e)])
      | Resolved None \<Rightarrow> respond 404 (message ''User not found'')
      | Resolved (Some user) \<Rightarrow>
          (let groupIDs = (case user_groupID user of None \<Rightarrow> [] | Some p \<Rightarrow> [p]);
               groupIDs = pushAdditional (user_additionalGroups user) groupIDs;
               groups = Group_find_in d groupIDs;
               formattedGroups =
                 map (\<lambda>grp. JObj [(''id'', JStr (group_id grp)),
                                      (''name'', JStr (group_name grp))]) groups
           in respond 200 (JObj [(''groupIDs'', JArr (map JStr groupIDs)),
                                 (''groups'', JArr formattedGroups)])))"

text \<open>
  \<^verbatim>\<open>getAllGroups\<close> (lines 230-268). \<open>mapGroupID\<close> is
  \<^verbatim>\<open>additionalGroups.map(group => group.groupID)\<close>: reading \<^verbatim>\<open>groupID\<close> of a
  \<^verbatim>\<open>null\<close> element throws (\<open>None\<close>), an element without one yields \<^verbatim>\<open>undefined\<close>.
\<close>

fun mapGroupID :: "additional_group option list \<Rightarrow> jsval list option" where
  "mapGroupID [] = Some []"
| "mapGroupID (None # rest) = None"
| "mapGroupID (Some g # rest) =
     (case mapGroupID rest of
        None \<Rightarrow> None
      | Some ids \<Rightarrow> Some (oid_opt (ag_groupID g) # ids))"

definition getAllGroups :: "db \<Rightarrow> jsval \<Rightarrow> response" where
  "getAllGroups d userID =
     (if \<not> truthy userID then respond 400 (message ''User ID is required'')
      else
        (case User_findById d userID of
           Rejected e \<Rightarrow> respond 500 (error_body e)
         | Resolved None \<Rightarrow> respond 404 (message ''User not found'')
         | Resolved (Some user) \<Rightarrow>
             (let groupIDs = (case user_groupID user of None \<Rightarrow> [] | Some p \<Rightarrow> [JOid p]);
                  pushed =
                    (if length (user_additionalGroups user) > 0
                     then (case mapGroupID (user_additionalGroups user) of
                             None \<Rightarrow> None
                           | Some additionalGroupIDs \<Rightarrow> Some (groupIDs @ additionalGroupIDs))
                     else Some groupIDs)
              in case pushed of
                   None \<Rightarrow> respond 500 (error_body (nullReadMessage d))
                 | Some groupIDs \<Rightarrow>
                     respond 200
                       (JObj [(''message'', JStr ''User groups retrieved successfully''),
                              (''userID'', userID),
                              (''groupIDs'', JArr groupIDs),
                              (''totalGroups'', JNum (of_nat (length groupIDs))),
                              (''hasAdditionalGroups'',
                                 JBool (length (user_additionalGroups user) > 0))]))))"

text \<open>
  \<^verbatim>\<open>updateUser\<close> (lines 272-298). \<^verbatim>\<open>email\<close> is deleted from the payload when
  \<^verbatim>\<open>updates.email\<close> is truthy (line 278).
\<close>

definition updateUser :: "db \<Rightarrow> jsval \<Rightarrow> (string \<times> jsval) list \<Rightarrow> response \<times> db" where
  "updateUser d userId reqBody =
     (let updates = (if truthy (get_prop reqBody ''email'')
                     then delete_prop ''email'' reqBody else reqBody)
      in case User_findByIdAndUpdate d userId updates of
           (Rejected e, d') \<Rightarrow> (respond 500 (error_body e), d')
         | (Resolved None, d') \<Rightarrow> (respond 404 (message ''User not found''), d')
         | (Resolved (Some updatedUser), d') \<Rightarrow> (respond 200 (user_json updatedUser), d'))"

text \<open>
  \<^verbatim>\<open>getFamilyMembers\<close> (lines 386-436). \<open>fullNameOf\<close> is the template literal of
  line 425, \<open>userMapOf\<close> the \<^verbatim>\<open>Map\<close> filled by the \<^verbatim>\<open>forEach\<close> of lines 415-418,
  \<open>familyMember\<close> the callback of lines 421-430, and \<open>rosterResponse\<close> the handler from
  the lookup of the target group (line 404) on. A found group's \<^verbatim>\<open>members\<close> is an
  array, hence truthy, so \<^verbatim>\<open>!group.members\<close> is false.
\<close>

definition fullNameOf :: "user_doc \<Rightarrow> string" where
  "fullNameOf userInfo =
     trim (or_empty (user_firstName userInfo) @ '' '' @ or_empty (user_lastName userInfo))"

definition userMapOf :: "user_doc list \<Rightarrow> (string \<rightharpoonup> user_doc)" where
  "userMapOf us = fold (\<lambda>user userMap. userMap(user_id user \<mapsto> user)) us Map.empty"

definition familyMember :: "(string \<rightharpoonup> user_doc) \<Rightarrow> member \<Rightarrow> jsval" where
  "familyMember userMap m =
     (let userInfo = userMap (member_user m) in
      JObj [(''userID'', JOid (member_user m)),
            (''fullName'',
               JStr (case userInfo of None \<Rightarrow> [] | Some ui \<Rightarrow> fullNameOf ui)),
            (''imageURL'',
               (case userInfo of None \<Rightarrow> JNull | Some ui \<Rightarrow> or_null (user_imageURL ui))),
            (''role'', JStr (member_role m)),
            (''familialRelation'', or_null (member_familialRelation m))])"

definition internal_error :: "string \<Rightarrow> jsval" where
  "internal_error e = JObj [(''message'', JStr ''Internal server error''), (''error'', JStr e)]"

definition rosterResponse :: "db \<Rightarrow> jsval \<Rightarrow> response" where
  "rosterResponse d targetGroupID =
     (case Group_findById d targetGroupID of
        Rejected e \<Rightarrow> respond 500 (internal_error e)
      | Resolved None \<Rightarrow> respond 404 (message ''Group not found or has no members'')
      | Resolved (Some grp) \<Rightarrow>
          (let allMembers = group_members grp;
               memberUserIDs = map member_user allMembers;
               users = User_find_in d memberUserIDs;
               userMap = userMapOf users;
               familyMembers = map (familyMember userMap) allMembers
           in respond 200 (JArr familyMembers)))"

definition getFamilyMembers :: "db \<Rightarrow> jsval \<Rightarrow> jsval \<Rightarrow> response" where
  "getFamilyMembers d userID requestedGroupID =
     (case User_findById d userID of
        Rejected e \<Rightarrow> respond 500 (internal_error e)
      | Resolved None \<Rightarrow> respond 404 (message ''User or group not found'')
      | Resolved (Some user) \<Rightarrow>
          (case user_groupID user of
             None \<Rightarrow> respond 404 (message ''User or group not found'')
           | Some p \<Rightarrow>
               (let targetGroupID = (if truthy requestedGroupID then requestedGroupID else JOid p)
                in rosterResponse d targetGroupID)))"

text \<open>
  \<^verbatim>\<open>updateUserRole\<close> (lines 482-549). \<open>setRole\<close> is the assignment of line 530; the
  role has passed \<^verbatim>\<open>validRoles.includes\<close> by then, so it is one of the three strings.
\<close>

definition validRoles :: "jsval list" where
  "validRoles = [JStr ''admin'', JStr ''caregiver'', JStr ''carereceiver'']"

definition setRole :: "jsval \<Rightarrow> member \<Rightarrow> member" where
  "setRole r m = (case r of JStr s \<Rightarrow> m\<lparr>member_role := s\<rparr> | _ \<Rightarrow> m)"

definition updateUserRole ::
  "db \<Rightarrow> jsval \<Rightarrow> jsval \<Rightarrow> (string \<times> jsval) list \<Rightarrow> response \<times> db" where
  "updateUserRole d userID targetUserID reqBody =
     (let role = get_prop reqBody ''role'';
          groupID = get_prop reqBody ''groupID''
      in
        if \<not> truthy userID \<or> \<not> truthy targetUserID \<or> \<not> truthy role \<or> \<not> truthy groupID
        then (respond 400
                (message ''User ID, target user ID, role, and group ID are required''), d)
        else if role \<notin> set validRoles
        then (respond 400
                (message ''Invalid role. Must be admin, caregiver, or carereceiver''), d)
        else if \<not> isUserAdminOfGroup d userID groupID
        then (respond 403 (message ''Only group admins can update user roles''), d)
        else
          (case Group_findById d groupID of
             Rejected e \<Rightarrow> (respond 500 (internal_error e), d)
           | Resolved None \<Rightarrow> (respond 404 (message ''Group not found''), d)
           | Resolved (Some grp) \<Rightarrow>
               (case findIndex (\<lambda>m. JStr (member_user m) = targetUserID) (group_members grp) of
                  None \<Rightarrow>
                    (respond 404 (message ''Target user is not a member of this group''), d)
                | Some targetMemberIndex \<Rightarrow>
                    if userID = targetUserID
                    then (respond 400 (message ''Cannot change your own role''), d)
                    else
                      (let grp' = grp\<lparr>group_members :=
                                        (group_members grp)
                                          [targetMemberIndex :=
                                             setRole role (group_members grp ! targetMemberIndex)]\<rparr>
                       in case Group_save d grp' of
                            Rejected e \<Rightarrow> (respond 500 (internal_error e), d)
                          | Resolved d' \<Rightarrow>
                              (respond 200
                                 (JObj [(''message'', JStr ''User role updated successfully''),
                                        (''updatedMember'',
                                           JObj [(''userID'', targetUserID),
                                                 (''role'', role),
                                                 (''groupID'', groupID)])]), d')))))"

text \<open>\<^verbatim>\<open>getNotificationPreferences\<close> (lines 623-650).\<close>

definition defaultPreferences :: jsval where
  "defaultPreferences =
     JObj [(''doNotDisturb'', JBool False), (''newFeed'', JBool True),
           (''newActivity'', JBool True), (''invites'', JBool True)]"

definition getNotificationPreferences :: "db \<Rightarrow> jsval \<Rightarrow> response" where
  "getNotificationPreferences d userID =
     (case User_findById d userID of
        Rejected e \<Rightarrow>
          respond 500 (JObj [(''message'', JStr ''Failed to fetch notification preferences''),
                             (''error'', JStr e)])
      | Resolved None \<Rightarrow> respond 404 (message ''User not found'')
      | Resolved (Some user) \<Rightarrow>
          (let preferences =
                 (case user_notificationPreferences user of
                    None \<Rightarrow> defaultPreferences
                  | Some p \<Rightarrow> prefs_json p)
           in respond 200 preferences))"

section \<open>A sample store\<close>

text \<open>
  A small store on which the theorems below are exercised. Its client casts a non-empty
  string or an ObjectId to a document id and rejects every other value; its User schema
  stores string values at the string paths, keeps every other path as given, and has no
  validator. Its engine words the error of reading \<^verbatim>\<open>groupID\<close> of
  \<^verbatim>\<open>null\<close> as V8 does.
\<close>

definition sample_cast :: "jsval \<Rightarrow> string + string" where
  "sample_cast v =
     (case v of
        JStr s \<Rightarrow> (if s = [] then Inl ''Cast to ObjectId failed'' else Inr s)
      | JOid i \<Rightarrow> Inr i
      | _ \<Rightarrow> Inl ''Cast to ObjectId failed'')"

definition str_opt :: "jsval \<Rightarrow> string option" where
  "str_opt v = (case v of JStr s \<Rightarrow> Some s | _ \<Rightarrow> None)"

definition sample_set_path :: "string \<times> jsval \<Rightarrow> user_doc \<Rightarrow> user_doc" where
  "sample_set_path kv u =
     (if fst kv = ''email'' then u\<lparr>user_email := str_opt (snd kv)\<rparr>
      else if fst kv = ''firstName'' then u\<lparr>user_firstName := str_opt (snd kv)\<rparr>
      else if fst kv = ''lastName'' then u\<lparr>user_lastName := str_opt (snd kv)\<rparr>
      else if fst kv = ''imageURL'' then u\<lparr>user_imageURL := str_opt (snd kv)\<rparr>
      else u\<lparr>user_other := kv # delete_prop (fst kv) (user_other u)\<rparr>)"

definition sample_userSet :: "(string \<times> jsval) list \<Rightarrow> user_doc \<Rightarrow> string + user_doc" where
  "sample_userSet sets u = Inr (fold sample_set_path sets u)"

definition alice :: user_doc where
  "alice =
     \<lparr>user_id = ''a1'', user_email = Some ''alice@example.com'',
      user_firstName = Some ''Alice'', user_lastName = Some ''Ng'', user_imageURL = None,
      user_groupID = Some ''g1'',
      user_additionalGroups = [Some \<lparr>ag_groupID = Some ''g2''\<rparr>, Some \<lparr>ag_groupID = None\<rparr>],
      user_notificationPreferences = None, user_other = []\<rparr>"

definition bob :: user_doc where
  "bob =
     \<lparr>user_id = ''b2'', user_email = Some ''bob@example.com'',
      user_firstName = Some ''Bob'', user_lastName = None, user_imageURL = None,
      user_groupID = None, user_additionalGroups = [],
      user_notificationPreferences = None, user_other = []\<rparr>"

definition family :: group_doc where
  "family =
     \<lparr>group_id = ''g1'', group_name = ''Family'',
      group_members =
        [\<lparr>member_user = ''a1'', member_role = ''admin'', member_familialRelation = None\<rparr>,
         \<lparr>member_user = ''b2'', member_role = ''caregiver'',
          member_familialRelation = Some ''son''\<rparr>,
         \<lparr>member_user = ''c3'', member_role = ''carereceiver'',
          member_familialRelation = Some ''daughter''\<rparr>]\<rparr>"

definition friends :: group_doc where
  "friends =
     \<lparr>group_id = ''g2'', group_name = ''Friends'',
      group_members =
        [\<lparr>member_user = ''a1'', member_role = ''caregiver'', member_familialRelation = None\<rparr>]\<rparr>"

definition neighbours :: group_doc where
  "neighbours =
     \<lparr>group_id = ''g3'', group_name = ''Neighbours'',
      group_members =
        [\<lparr>member_user = ''b2'', member_role = ''caregiver'',
          member_familialRelation = Some ''''\<rparr>]\<rparr>"

definition sample_db :: db where
  "sample_db =
     \<lparr>db_users = [alice, bob], db_groups = [family, friends, neighbours],
      castObjectId = sample_cast, userSet = sample_userSet, groupValidate = (\<lambda>g. None),
      nullReadMessage =
        ''Cannot read properties of null (reading '' @ [CHR 0x27] @ ''groupID''
          @ [CHR 0x27] @ '')''\<rparr>"

section \<open>Notions used to state the properties\<close>

text \<open>
  The group ids that the elements of an \<^verbatim>\<open>additionalGroups\<close> array carry, in stored
  order: an element that is \<^verbatim>\<open>null\<close> or has no \<^verbatim>\<open>groupID\<close> contributes none.
\<close>

definition stored_groupIDs :: "additional_group option list \<Rightarrow> string list" where
  "stored_groupIDs ags =
     concat (map (\<lambda>x. case x of
                          None \<Rightarrow> []
                        | Some g \<Rightarrow> (case ag_groupID g of None \<Rightarrow> [] | Some i \<Rightarrow> [i])) ags)"

text \<open>The six body fields that \<^verbatim>\<open>provideAdditionalUserInfo\<close> reads (lines 92-99).\<close>

definition onboardingFields :: "string list" where
  "onboardingFields =
     [''firstName'', ''lastName'', ''dateOfBirth'', ''gender'', ''weight'', ''height'']"

section \<open>Auxiliary facts\<close>

lemma status_respond [simp]: "status (respond s b) = s"
  by (simp add: respond_def)

lemma body_respond [simp]: "body (respond s b) = b"
  by (simp add: respond_def)

lemma findIndex_None_iff: "findIndex P xs = None \<longleftrightarrow> (\<forall>x\<in>set xs. \<not> P x)"
  by (induction xs) (auto split: option.splits)

lemma get_prop_delete_prop: "get_prop (delete_prop k kvs) k = JUndefined"
proof -
  have "map_of (filter (\<lambda>kv. fst kv \<noteq> k) kvs) k = None"
    by (induction kvs) auto
  then show ?thesis by (simp add: get_prop_def delete_prop_def)
qed

lemma isUserAdminOfGroup_member:
  "isUserAdminOfGroup d userID groupID \<longleftrightarrow>
     (\<exists>g. Group_findById d groupID = Resolved (Some g) \<and>
          (\<exists>m\<in>set (group_members g). JStr (member_user m) = userID \<and> member_role m = ''admin''))"
  unfolding isUserAdminOfGroup_def
  by (auto split: outcome.splits option.splits simp: find_None_iff find_Some_iff)

subsection \<open>The sample store, evaluated\<close>

lemma sample_Group_findById_g1: "Group_findById sample_db (JStr ''g1'') = Resolved (Some family)"
  by (simp add: Group_findById_def sample_db_def sample_cast_def family_def)

lemma sample_Group_findById_oid_g1:
  "Group_findById sample_db (JOid ''g1'') = Resolved (Some family)"
  by (simp add: Group_findById_def sample_db_def sample_cast_def family_def)

lemma sample_Group_findById_g2: "Group_findById sample_db (JStr ''g2'') = Resolved (Some friends)"
  by (simp add: Group_findById_def sample_db_def sample_cast_def family_def friends_def)

lemma sample_Group_findById_g3:
  "Group_findById sample_db (JStr ''g3'') = Resolved (Some neighbours)"
  by (simp add: Group_findById_def sample_db_def sample_cast_def family_def friends_def
      neighbours_def)

lemma sample_Group_findById_g9: "Group_findById sample_db (JStr ''g9'') = Resolved None"
  by (simp add: Group_findById_def sample_db_def sample_cast_def family_def friends_def
      neighbours_def)

lemma sample_Group_findById_num:
  "Group_findById sample_db (JNum 7) = Rejected ''Cast to ObjectId failed''"
  by (simp add: Group_findById_def sample_db_def sample_cast_def)

lemma sample_User_findById_a1: "User_findById sample_db (JStr ''a1'') = Resolved (Some alice)"
  by (simp add: User_findById_def sample_db_def sample_cast_def alice_def)

lemma sample_User_findById_b2: "User_findById sample_db (JStr ''b2'') = Resolved (Some bob)"
  by (simp add: User_findById_def sample_db_def sample_cast_def alice_def bob_def)

lemma sample_admin_a1: "isUserAdminOfGroup sample_db (JStr ''a1'') (JStr ''g1'')"
  by (simp add: isUserAdminOfGroup_def sample_Group_findById_g1 family_def)

lemma sample_not_admin_b2: "\<not> isUserAdminOfGroup sample_db (JStr ''b2'') (JStr ''g1'')"
  by (simp add: isUserAdminOfGroup_def sample_Group_findById_g1 family_def)

section \<open>The admin-authorization check decides admin membership\<close>

text \<open>
  Claim C1. For every user id \<open>U\<close> and group id \<open>G\<close>, \<^verbatim>\<open>isUserAdminOfGroup(U, G)\<close>
  returns true if and only if the lookup of \<open>G\<close> finds a group whose member list has an
  entry whose user reference renders as \<open>U\<close> and whose role is \<^verbatim>\<open>"admin"\<close>. When the
  lookup finds no group, and when the lookup rejects, it returns false.
\<close>

theorem isUserAdminOfGroup_iff:
  "(isUserAdminOfGroup d U G \<longleftrightarrow>
      (\<exists>g. Group_findById d G = Resolved (Some g) \<and>
           (\<exists>m\<in>set (group_members g). JStr (member_user m) = U \<and> member_role m = ''admin'')))
   \<and> (Group_findById d G = Resolved None \<longrightarrow> \<not> isUserAdminOfGroup d U G)
   \<and> (\<forall>e. Group_findById d G = Rejected e \<longrightarrow> \<not> isUserAdminOfGroup d U G)"
  by (simp add: isUserAdminOfGroup_member)

text \<open>
  On the sample store: Alice is an admin of the family group, Bob (a caregiver there) is
  not, and nobody is an admin of a group that is absent or whose id does not cast.
\<close>

theorem isUserAdminOfGroup_iff_witness:
  "isUserAdminOfGroup sample_db (JStr ''a1'') (JStr ''g1'')
   \<and> \<not> isUserAdminOfGroup sample_db (JStr ''b2'') (JStr ''g1'')
   \<and> \<not> isUserAdminOfGroup sample_db (JStr ''a1'') (JStr ''g9'')
   \<and> \<not> isUserAdminOfGroup sample_db (JStr ''a1'') (JNum 7)"
proof -
  have a: "\<exists>m\<in>set (group_members family).
             JStr (member_user m) = JStr ''a1'' \<and> member_role m = ''admin''"
    by (simp add: family_def)
  have b: "\<not> (\<exists>m\<in>set (group_members family).
                JStr (member_user m) = JStr ''b2'' \<and> member_role m = ''admin'')"
    by (simp add: family_def)
  show ?thesis
    using isUserAdminOfGroup_iff [of sample_db "JStr ''a1''" "JStr ''g1''"]
      isUserAdminOfGroup_iff [of sample_db "JStr ''b2''" "JStr ''g1''"]
      isUserAdminOfGroup_iff [of sample_db "JStr ''a1''" "JStr ''g9''"]
      isUserAdminOfGroup_iff [of sample_db "JStr ''a1''" "JNum 7"]
      a b sample_Group_findById_g9 sample_Group_findById_num sample_Group_findById_g1
    by simp
qed

section \<open>Role updates\<close>

lemma updateUserRole_self_admin:
  assumes "isUserAdminOfGroup d userID (get_prop reqBody ''groupID'')"
    and "truthy userID" and "truthy (get_prop reqBody ''role'')"
    and "truthy (get_prop reqBody ''groupID'')"
    and "get_prop reqBody ''role'' \<in> set validRoles"
  shows "updateUserRole d userID userID reqBody
           = (respond 400 (message ''Cannot change your own role''), d)"
proof -
  from assms(1) obtain g m
    where g: "Group_findById d (get_prop reqBody ''groupID'') = Resolved (Some g)"
      and m: "m \<in> set (group_members g)" "JStr (member_user m) = userID"
    by (auto simp: isUserAdminOfGroup_member)
  from m have "findIndex (\<lambda>m. JStr (member_user m) = userID) (group_members g) \<noteq> None"
    by (auto simp: findIndex_None_iff)
  then obtain i
    where "findIndex (\<lambda>m. JStr (member_user m) = userID) (group_members g) = Some i"
    by auto
  with g assms show ?thesis
    by (simp add: updateUserRole_def Let_def)
qed

lemma updateUserRole_early:
  assumes "\<not> truthy userID \<or> \<not> truthy (get_prop reqBody ''role'')
           \<or> \<not> truthy (get_prop reqBody ''groupID'')
           \<or> get_prop reqBody ''role'' \<notin> set validRoles"
  shows "snd (updateUserRole d userID userID reqBody) = d
       \<and> status (fst (updateUserRole d userID userID reqBody)) = 400"
  using assms by (auto simp: updateUserRole_def Let_def)

lemma updateUserRole_self_not_admin:
  assumes "\<not> isUserAdminOfGroup d userID (get_prop reqBody ''groupID'')"
    and "truthy userID" and "truthy (get_prop reqBody ''role'')"
    and "truthy (get_prop reqBody ''groupID'')"
    and "get_prop reqBody ''role'' \<in> set validRoles"
  shows "updateUserRole d userID userID reqBody
           = (respond 403 (message ''Only group admins can update user roles''), d)"
  using assms by (simp add: updateUserRole_def Let_def)

text \<open>
  Claim C2, as amended. For every \<^verbatim>\<open>updateUserRole\<close> request in which
  \<^verbatim>\<open>userID\<close> equals \<^verbatim>\<open>targetUserID\<close>, the store (hence every group's member list)
  is left unchanged and the response is 400 or 403. It is 400 whenever the caller is an
  admin of the group; with the four inputs present and a valid role that is the
  rejection \<^verbatim>\<open>Cannot change your own role\<close>. With the four inputs present and a valid
  role, a caller who is not an admin of the group is answered 403, because the admin
  check (line 500) comes before the self-change check (line 523).
\<close>

theorem updateUserRole_self:
  "snd (updateUserRole d userID userID reqBody) = d
   \<and> (status (fst (updateUserRole d userID userID reqBody)) = 400
        \<or> status (fst (updateUserRole d userID userID reqBody)) = 403)
   \<and> (isUserAdminOfGroup d userID (get_prop reqBody ''groupID'')
        \<longrightarrow> status (fst (updateUserRole d userID userID reqBody)) = 400)
   \<and> (truthy userID \<and> truthy (get_prop reqBody ''role'') \<and> truthy (get_prop reqBody ''groupID'')
        \<and> get_prop reqBody ''role'' \<in> set validRoles
        \<longrightarrow> fst (updateUserRole d userID userID reqBody)
              = (if isUserAdminOfGroup d userID (get_prop reqBody ''groupID'')
                 then respond 400 (message ''Cannot change your own role'')
                 else respond 403 (message ''Only group admins can update user roles'')))"
proof (cases "truthy userID \<and> truthy (get_prop reqBody ''role'')
              \<and> truthy (get_prop reqBody ''groupID'')
              \<and> get_prop reqBody ''role'' \<in> set validRoles")
  case False
  with updateUserRole_early [of userID reqBody d] show ?thesis
    by auto
next
  case True
  show ?thesis
  proof (cases "isUserAdminOfGroup d userID (get_prop reqBody ''groupID'')")
    case adm: True
    with True updateUserRole_self_admin [of d userID reqBody] show ?thesis
      by simp
  next
    case nadm: False
    with True updateUserRole_self_not_admin [of d userID reqBody] show ?thesis
      by simp
  qed
qed

text \<open>
  On the sample store: Alice, an admin of the family group, asks to make herself a
  caregiver and is answered 400 with the store unchanged.
\<close>

theorem updateUserRole_self_witness:
  "isUserAdminOfGroup sample_db (JStr ''a1'') (JStr ''g1'')
   \<and> updateUserRole sample_db (JStr ''a1'') (JStr ''a1'')
        [(''role'', JStr ''caregiver''), (''groupID'', JStr ''g1'')]
      = (respond 400 (message ''Cannot change your own role''), sample_db)"
proof -
  let ?b = "[(''role'', JStr ''caregiver''), (''groupID'', JStr ''g1'')]"
  have g: "get_prop ?b ''groupID'' = JStr ''g1''" and r: "get_prop ?b ''role'' = JStr ''caregiver''"
    by (simp_all add: get_prop_def)
  have "fst (updateUserRole sample_db (JStr ''a1'') (JStr ''a1'') ?b)
          = respond 400 (message ''Cannot change your own role'')
      \<and> snd (updateUserRole sample_db (JStr ''a1'') (JStr ''a1'') ?b) = sample_db"
    using updateUserRole_self [of sample_db "JStr ''a1''" ?b] sample_admin_a1
    by (simp add: g r validRoles_def)
  then show ?thesis
    using sample_admin_a1 by (simp add: prod_eq_iff)
qed

text \<open>
  The claim as stated fails: Bob is a caregiver, not an admin, of the family group; his
  request to make himself an admin is answered 403, not 400.
\<close>

theorem updateUserRole_self_counterexample:
  "status (fst (updateUserRole sample_db (JStr ''b2'') (JStr ''b2'')
                  [(''role'', JStr ''admin''), (''groupID'', JStr ''g1'')])) \<noteq> 400
   \<and> updateUserRole sample_db (JStr ''b2'') (JStr ''b2'')
        [(''role'', JStr ''admin''), (''groupID'', JStr ''g1'')]
      = (respond 403 (message ''Only group admins can update user roles''), sample_db)"
  by (simp add: updateUserRole_def get_prop_def validRoles_def sample_not_admin_b2)

text \<open>
  Claim C7. For every \<^verbatim>\<open>updateUserRole\<close> request whose four required inputs are
  present and whose role is none of \<^verbatim>\<open>admin\<close>, \<^verbatim>\<open>caregiver\<close>, \<^verbatim>\<open>carereceiver\<close>, the
  handler responds 400 with the invalid-role message and leaves the store as it is,
  whatever the store holds: the response does not depend on the caller's admin status,
  which is not looked up.
\<close>

theorem updateUserRole_invalid_role:
  assumes "truthy userID" and "truthy targetUserID"
    and "truthy (get_prop reqBody ''role'')" and "truthy (get_prop reqBody ''groupID'')"
    and "get_prop reqBody ''role'' \<notin> {JStr ''admin'', JStr ''caregiver'', JStr ''carereceiver''}"
  shows "updateUserRole d userID targetUserID reqBody
           = (respond 400 (message ''Invalid role. Must be admin, caregiver, or carereceiver''), d)"
  using assms by (simp add: updateUserRole_def Let_def validRoles_def)

text \<open>
  On the sample store: Bob, who is not an admin of the family group, asks for the role
  \<^verbatim>\<open>owner\<close> and is answered 400, not 403.
\<close>

theorem updateUserRole_invalid_role_witness:
  "updateUserRole sample_db (JStr ''b2'') (JStr ''a1'')
      [(''role'', JStr ''owner''), (''groupID'', JStr ''g1'')]
     = (respond 400 (message ''Invalid role. Must be admin, caregiver, or carereceiver''),
        sample_db)
   \<and> \<not> isUserAdminOfGroup sample_db (JStr ''b2'') (JStr ''g1'')"
  using updateUserRole_invalid_role [of "JStr ''b2''" "JStr ''a1''"
      "[(''role'', JStr ''owner''), (''groupID'', JStr ''g1'')]" sample_db]
    sample_not_admin_b2
  by (simp add: get_prop_def)

section \<open>Profile updates\<close>

text \<open>
  A body whose \<^verbatim>\<open>email\<close> is truthy is handled as the same body without
  \<^verbatim>\<open>email\<close>.
\<close>

lemma updateUser_truthy_email:
  "truthy (get_prop reqBody ''email'') \<Longrightarrow>
     updateUser d userId reqBody = updateUser d userId (delete_prop ''email'' reqBody)"
  by (simp add: updateUser_def Let_def get_prop_delete_prop)

text \<open>
  Claim C3 does not hold of the code. The comment of line 277 says that email changes are
  not allowed through this endpoint, but line 278 deletes \<^verbatim>\<open>email\<close> from the payload
  only when it is truthy. On the sample store (whose schema has no validator), the body
  \<^verbatim>\<open>{email: "", name: "Bob"}\<close> sent for Alice is answered 200 and her stored email,
  \<^verbatim>\<open>alice@example.com\<close> before the call, is the empty string after it.
\<close>

theorem updateUser_falsy_email:
  "status (fst (updateUser sample_db (JStr ''a1'')
                  [(''email'', JStr ''''), (''name'', JStr ''Bob'')])) = 200
   \<and> map user_email (db_users sample_db) = [Some ''alice@example.com'', Some ''bob@example.com'']
   \<and> map user_email (db_users (snd (updateUser sample_db (JStr ''a1'')
          [(''email'', JStr ''''), (''name'', JStr ''Bob'')])))
       = [Some '''', Some ''bob@example.com'']"
  by (simp add: updateUser_def get_prop_def User_findByIdAndUpdate_def sample_db_def
      sample_cast_def sample_userSet_def sample_set_path_def str_opt_def alice_def bob_def
      delete_prop_def)

text \<open>
  Claim C9. \<^verbatim>\<open>provideAdditionalUserInfo\<close> tests its six fields for truthiness: a body
  in which \<^verbatim>\<open>weight\<close> or \<^verbatim>\<open>height\<close> is the number 0, or in which one of the six
  fields is the empty string, is answered 400 with the message
  \<^verbatim>\<open>Please fill out all fields to complete onboarding\<close>, and the store is unchanged.
\<close>

theorem provideAdditionalUserInfo_falsy:
  assumes "get_prop reqBody ''weight'' = JNum 0 \<or> get_prop reqBody ''height'' = JNum 0
           \<or> (\<exists>k\<in>set onboardingFields. get_prop reqBody k = JStr '''')"
  shows "provideAdditionalUserInfo d userID reqBody
           = (Some (respond 400 (message ''Please fill out all fields to complete onboarding'')),
              d)"
proof -
  have "\<exists>k\<in>set onboardingFields. \<not> truthy (get_prop reqBody k)"
    using assms by (auto simp: onboardingFields_def)
  then show ?thesis
    by (auto simp: provideAdditionalUserInfo_def Let_def onboardingFields_def)
qed

text \<open>On the sample store: all six fields are supplied for Alice, with weight 0.\<close>

theorem provideAdditionalUserInfo_falsy_witness:
  "provideAdditionalUserInfo sample_db (JStr ''a1'')
      [(''firstName'', JStr ''Alice''), (''lastName'', JStr ''Ng''),
       (''dateOfBirth'', JStr ''1990-01-01''), (''gender'', JStr ''F''),
       (''weight'', JNum 0), (''height'', JNum 170)]
     = (Some (respond 400 (message ''Please fill out all fields to complete onboarding'')),
        sample_db)"
  by (rule provideAdditionalUserInfo_falsy) (simp add: get_prop_def)

section \<open>Notification preferences\<close>

text \<open>
  Claim C8. For every user that the lookup finds and that has no stored
  \<^verbatim>\<open>notificationPreferences\<close>, \<^verbatim>\<open>getNotificationPreferences\<close> responds 200 with
  exactly the default bag: \<^verbatim>\<open>doNotDisturb\<close> false, \<^verbatim>\<open>newFeed\<close>, \<^verbatim>\<open>newActivity\<close>
  and \<^verbatim>\<open>invites\<close> true.
\<close>

theorem getNotificationPreferences_default:
  assumes "User_findById d userID = Resolved (Some user)"
    and "user_notificationPreferences user = None"
  shows "getNotificationPreferences d userID
           = respond 200 (JObj [(''doNotDisturb'', JBool False), (''newFeed'', JBool True),
                                (''newActivity'', JBool True), (''invites'', JBool True)])"
  using assms by (simp add: getNotificationPreferences_def defaultPreferences_def)

text \<open>On the sample store: Alice has no stored preferences.\<close>

theorem getNotificationPreferences_default_witness:
  "getNotificationPreferences sample_db (JStr ''a1'')
     = respond 200 (JObj [(''doNotDisturb'', JBool False), (''newFeed'', JBool True),
                          (''newActivity'', JBool True), (''invites'', JBool True)])"
proof -
  have "user_notificationPreferences alice = None"
    by (simp add: alice_def)
  with sample_User_findById_a1 show ?thesis
    by (rule getNotificationPreferences_default)
qed

section \<open>Admin status of a non-member\<close>

text \<open>
  Claim C10. When \<^verbatim>\<open>userID\<close> and \<^verbatim>\<open>groupID\<close> are supplied, the user and the group
  are both found, and no entry of the group's member list is the user,
  \<^verbatim>\<open>checkUserAdminStatus\<close> responds 200 (not 404) with \<^verbatim>\<open>isAdmin\<close> false,
  \<^verbatim>\<open>isMember\<close> false and the message \<^verbatim>\<open>User is not a member of this group\<close>.
\<close>

theorem checkUserAdminStatus_not_member:
  assumes "truthy userID" and "truthy groupID"
    and "User_findById d userID = Resolved (Some user)"
    and "Group_findById d groupID = Resolved (Some grp)"
    and "\<forall>m\<in>set (group_members grp). JStr (member_user m) \<noteq> userID"
  shows "checkUserAdminStatus d userID groupID
           = respond 200 (JObj [(''isAdmin'', JBool False), (''isMember'', JBool False),
                                (''message'', JStr ''User is not a member of this group'')])"
proof -
  from assms(5) have "find (\<lambda>m. JStr (member_user m) = userID) (group_members grp) = None"
    by (simp add: find_None_iff)
  with assms(1-4) show ?thesis
    by (simp add: checkUserAdminStatus_def Let_def)
qed

text \<open>On the sample store: Bob exists, the friends group exists, and Bob is not in it.\<close>

theorem checkUserAdminStatus_not_member_witness:
  "checkUserAdminStatus sample_db (JStr ''b2'') (JStr ''g2'')
     = respond 200 (JObj [(''isAdmin'', JBool False), (''isMember'', JBool False),
                          (''message'', JStr ''User is not a member of this group'')])"
proof -
  have "\<forall>m\<in>set (group_members friends). JStr (member_user m) \<noteq> JStr ''b2''"
    by (simp add: friends_def)
  with checkUserAdminStatus_not_member [OF _ _ sample_User_findById_b2 sample_Group_findById_g2]
  show ?thesis by simp
qed

section \<open>The family roster\<close>

lemma fold_userMap_None:
  "fold (\<lambda>user userMap. userMap(user_id user \<mapsto> user)) us m k = None
     \<longleftrightarrow> m k = None \<and> (\<forall>u\<in>set us. user_id u \<noteq> k)"
  by (induction us arbitrary: m) auto

lemma userMapOf_None: "userMapOf us k = None \<longleftrightarrow> (\<forall>u\<in>set us. user_id u \<noteq> k)"
  by (simp add: userMapOf_def fold_userMap_None)

lemma familyMember_role: "get_field (familyMember userMap m) ''role'' = JStr (member_role m)"
  by (simp add: familyMember_def get_prop_def Let_def)

lemma familyMember_familialRelation:
  "get_field (familyMember userMap m) ''familialRelation'' =
     (case member_familialRelation m of
        None \<Rightarrow> JNull
      | Some r \<Rightarrow> if r = [] then JNull else JStr r)"
  by (simp add: familyMember_def get_prop_def Let_def or_null_def of_opt_def
      split: option.splits)

lemma familyMember_fullName_missing:
  "userMap (member_user m) = None \<Longrightarrow>
     get_field (familyMember userMap m) ''fullName'' = JStr ''''"
  by (simp add: familyMember_def get_prop_def Let_def)

lemma status_rosterResponse:
  "status (rosterResponse d t) = 200 \<Longrightarrow>
     \<exists>grp. Group_findById d t = Resolved (Some grp) \<and>
       body (rosterResponse d t) =
         JArr (map (familyMember
                      (userMapOf (User_find_in d (map member_user (group_members grp)))))
                 (group_members grp))"
  by (auto simp: rosterResponse_def Let_def split: outcome.splits option.splits)

lemma sample_User_find_in:
  "User_find_in sample_db (map member_user (group_members family)) = [alice, bob]"
  by (simp add: User_find_in_def sample_db_def family_def alice_def bob_def)

lemma sample_userMap:
  "userMapOf [alice, bob] = [''a1'' \<mapsto> alice, ''b2'' \<mapsto> bob]"
  by (simp add: userMapOf_def alice_def bob_def)

lemma sample_fullNames: "fullNameOf alice = ''Alice Ng''" "fullNameOf bob = ''Bob''"
  by (simp_all add: fullNameOf_def alice_def bob_def trim_def or_empty_def strip.simps
      white_space_def)

lemma sample_rosterResponse:
  "rosterResponse sample_db (JOid ''g1'') =
     respond 200 (JArr
       [JObj [(''userID'', JOid ''a1''), (''fullName'', JStr ''Alice Ng''), (''imageURL'', JNull),
              (''role'', JStr ''admin''), (''familialRelation'', JNull)],
        JObj [(''userID'', JOid ''b2''), (''fullName'', JStr ''Bob''), (''imageURL'', JNull),
              (''role'', JStr ''caregiver''), (''familialRelation'', JStr ''son'')],
        JObj [(''userID'', JOid ''c3''), (''fullName'', JStr ''''), (''imageURL'', JNull),
              (''role'', JStr ''carereceiver''), (''familialRelation'', JStr ''daughter'')]])"
proof -
  have img: "user_imageURL alice = None" "user_imageURL bob = None"
    by (simp_all add: alice_def bob_def)
  show ?thesis
    by (simp add: rosterResponse_def sample_Group_findById_oid_g1 sample_User_find_in
        sample_userMap Let_def)
      (simp add: family_def familyMember_def sample_fullNames img or_null_def of_opt_def)
qed

lemma sample_roster:
  "getFamilyMembers sample_db (JStr ''a1'') JUndefined = rosterResponse sample_db (JOid ''g1'')"
proof -
  have "user_groupID alice = Some ''g1''"
    by (simp add: alice_def)
  then show ?thesis
    by (simp add: getFamilyMembers_def sample_User_findById_a1)
qed

text \<open>
  Claim C4, as amended. For every \<^verbatim>\<open>getFamilyMembers\<close> response with status 200,
  the body is an array with one entry per member of the target group, in the member
  list's order: its length is the member count; entry \<open>i\<close> has the role of member
  \<open>i\<close>; its \<^verbatim>\<open>familialRelation\<close> is that of member \<open>i\<close> when that is a non-empty
  string, and \<^verbatim>\<open>null\<close> when the member's relation is unset or the empty string
  (line 428); and the \<^verbatim>\<open>fullName\<close> of an entry is the empty string, a string and
  neither \<^verbatim>\<open>null\<close> nor \<^verbatim>\<open>undefined\<close>, when no user document has the member's
  user id.
\<close>

theorem getFamilyMembers_roster:
  assumes "status (getFamilyMembers d userID requestedGroupID) = 200"
  shows "\<exists>user p grp entries.
           User_findById d userID = Resolved (Some user) \<and> user_groupID user = Some p
         \<and> Group_findById d (if truthy requestedGroupID then requestedGroupID else JOid p)
             = Resolved (Some grp)
         \<and> body (getFamilyMembers d userID requestedGroupID) = JArr entries
         \<and> length entries = length (group_members grp)
         \<and> (\<forall>i<length (group_members grp).
               get_field (entries ! i) ''role'' = JStr (member_role (group_members grp ! i))
             \<and> get_field (entries ! i) ''familialRelation'' =
                 (case member_familialRelation (group_members grp ! i) of
                    None \<Rightarrow> JNull
                  | Some r \<Rightarrow> if r = [] then JNull else JStr r)
             \<and> ((\<forall>u\<in>set (db_users d). user_id u \<noteq> member_user (group_members grp ! i))
                   \<longrightarrow> get_field (entries ! i) ''fullName'' = JStr ''''))"
proof -
  from assms obtain user p where u: "User_findById d userID = Resolved (Some user)"
    and p: "user_groupID user = Some p"
    and st: "status (rosterResponse d
                       (if truthy requestedGroupID then requestedGroupID else JOid p)) = 200"
    and eq: "getFamilyMembers d userID requestedGroupID
               = rosterResponse d (if truthy requestedGroupID then requestedGroupID else JOid p)"
    by (auto simp: getFamilyMembers_def Let_def split: outcome.splits option.splits)
  let ?t = "if truthy requestedGroupID then requestedGroupID else JOid p"
  from status_rosterResponse [OF st] obtain grp
    where g: "Group_findById d ?t = Resolved (Some grp)"
      and b: "body (rosterResponse d ?t) =
                JArr (map (familyMember
                             (userMapOf (User_find_in d (map member_user (group_members grp)))))
                        (group_members grp))"
    by blast
  let ?um = "userMapOf (User_find_in d (map member_user (group_members grp)))"
  have missing: "?um (member_user (group_members grp ! i)) = None"
    if "\<forall>u\<in>set (db_users d). user_id u \<noteq> member_user (group_members grp ! i)" for i
    using that by (simp add: userMapOf_None User_find_in_def)
  show ?thesis
    apply (rule exI [of _ user], rule exI [of _ p], rule exI [of _ grp])
    apply (rule exI [of _ "map (familyMember ?um) (group_members grp)"])
    using u p g b eq
    by (simp add: familyMember_role familyMember_familialRelation
        familyMember_fullName_missing missing)
qed

text \<open>
  On the sample store: Alice's roster has the three members of the family group; the
  third, the care receiver \<^verbatim>\<open>c3\<close>, has no user document and an empty full name.
\<close>

theorem getFamilyMembers_roster_witness:
  "status (getFamilyMembers sample_db (JStr ''a1'') JUndefined) = 200
   \<and> (\<exists>entries. body (getFamilyMembers sample_db (JStr ''a1'') JUndefined) = JArr entries
         \<and> length entries = 3
         \<and> get_field (entries ! 2) ''role'' = JStr ''carereceiver''
         \<and> get_field (entries ! 2) ''fullName'' = JStr '''')"
proof -
  have st: "status (getFamilyMembers sample_db (JStr ''a1'') JUndefined) = 200"
    by (simp add: sample_roster sample_rosterResponse)
  from getFamilyMembers_roster [OF st] obtain user p grp entries where
    u: "User_findById sample_db (JStr ''a1'') = Resolved (Some user)"
    and p: "user_groupID user = Some p"
    and g: "Group_findById sample_db (if truthy JUndefined then JUndefined else JOid p)
              = Resolved (Some grp)"
    and b: "body (getFamilyMembers sample_db (JStr ''a1'') JUndefined) = JArr entries"
    and l: "length entries = length (group_members grp)"
    and e: "\<forall>i<length (group_members grp).
               get_field (entries ! i) ''role'' = JStr (member_role (group_members grp ! i))
             \<and> get_field (entries ! i) ''familialRelation'' =
                 (case member_familialRelation (group_members grp ! i) of
                    None \<Rightarrow> JNull
                  | Some r \<Rightarrow> if r = [] then JNull else JStr r)
             \<and> ((\<forall>u\<in>set (db_users sample_db).
                    user_id u \<noteq> member_user (group_members grp ! i))
                   \<longrightarrow> get_field (entries ! i) ''fullName'' = JStr '''')"
    by blast
  from u have "user = alice"
    by (simp add: sample_User_findById_a1)
  with p have "p = ''g1''"
    by (simp add: alice_def)
  with g have grp: "grp = family"
    by (simp add: sample_Group_findById_oid_g1)
  have len: "length (group_members family) = 3"
    by (simp add: family_def)
  have m2: "group_members family ! 2 =
      \<lparr>member_user = ''c3'', member_role = ''carereceiver'',
       member_familialRelation = Some ''daughter''\<rparr>"
    by (simp add: family_def)
  have nouser: "\<forall>u\<in>set (db_users sample_db). user_id u \<noteq> ''c3''"
    by (simp add: sample_db_def alice_def bob_def)
  from e grp len
  have "get_field (entries ! 2) ''role'' = JStr (member_role (group_members family ! 2))
     \<and> ((\<forall>u\<in>set (db_users sample_db). user_id u \<noteq> member_user (group_members family ! 2))
           \<longrightarrow> get_field (entries ! 2) ''fullName'' = JStr '''')"
    by simp
  with m2 nouser have "get_field (entries ! 2) ''role'' = JStr ''carereceiver''
      \<and> get_field (entries ! 2) ''fullName'' = JStr ''''"
    by simp
  with st b l grp len show ?thesis
    by simp
qed

text \<open>
  The claim as stated fails: the only member of the neighbours group is stored with the
  empty string as familial relation, and the entry of the 200 response carries
  \<^verbatim>\<open>null\<close>, which is not the member's value.
\<close>

theorem getFamilyMembers_roster_counterexample:
  "Group_findById sample_db (JStr ''g3'') = Resolved (Some neighbours)
   \<and> map member_familialRelation (group_members neighbours) = [Some '''']
   \<and> getFamilyMembers sample_db (JStr ''a1'') (JStr ''g3'')
       = respond 200 (JArr [JObj [(''userID'', JOid ''b2''), (''fullName'', JStr ''Bob''),
                                  (''imageURL'', JNull), (''role'', JStr ''caregiver''),
                                  (''familialRelation'', JNull)]])
   \<and> JNull \<noteq> JStr ''''"
proof -
  have a: "user_groupID alice = Some ''g1''"
    by (simp add: alice_def)
  have fi: "User_find_in sample_db (map member_user (group_members neighbours)) = [bob]"
    by (simp add: User_find_in_def sample_db_def neighbours_def alice_def bob_def)
  have um: "userMapOf [bob] = [''b2'' \<mapsto> bob]"
    by (simp add: userMapOf_def bob_def)
  have img: "user_imageURL bob = None"
    by (simp add: bob_def)
  have r: "rosterResponse sample_db (JStr ''g3'')
       = respond 200 (JArr [JObj [(''userID'', JOid ''b2''), (''fullName'', JStr ''Bob''),
                                  (''imageURL'', JNull), (''role'', JStr ''caregiver''),
                                  (''familialRelation'', JNull)]])"
    by (simp add: rosterResponse_def sample_Group_findById_g3 fi um Let_def)
      (simp add: neighbours_def familyMember_def sample_fullNames img or_null_def of_opt_def)
  have "getFamilyMembers sample_db (JStr ''a1'') (JStr ''g3'')
          = rosterResponse sample_db (JStr ''g3'')"
    using a by (simp add: getFamilyMembers_def sample_User_findById_a1)
  with r sample_Group_findById_g3 show ?thesis
    by (simp add: neighbours_def)
qed

text \<open>
  Claim C5. For a user that the lookup finds, \<^verbatim>\<open>getFamilyMembers\<close> responds 404 with
  the message \<^verbatim>\<open>User or group not found\<close> when the user has no primary
  \<^verbatim>\<open>groupID\<close>; otherwise its response is the roster of the target group, which is the
  query-string group id when one is supplied (truthy) and the user's primary
  \<^verbatim>\<open>groupID\<close> when none is.
\<close>

theorem getFamilyMembers_target:
  assumes "User_findById d userID = Resolved (Some user)"
  shows "(user_groupID user = None \<longrightarrow>
            getFamilyMembers d userID requestedGroupID
              = respond 404 (message ''User or group not found''))
       \<and> (\<forall>p. user_groupID user = Some p \<longrightarrow>
            getFamilyMembers d userID requestedGroupID
              = rosterResponse d (if truthy requestedGroupID then requestedGroupID else JOid p))"
  using assms by (simp add: getFamilyMembers_def Let_def)

text \<open>
  On the sample store: Bob has no primary group and is answered 404, override or not;
  Alice's request goes to her primary group without an override and to the group named by
  the override with one (the friends group, whose only member is Alice herself).
\<close>

theorem getFamilyMembers_target_witness:
  "getFamilyMembers sample_db (JStr ''b2'') (JStr ''g1'')
     = respond 404 (message ''User or group not found'')
   \<and> getFamilyMembers sample_db (JStr ''a1'') JUndefined = rosterResponse sample_db (JOid ''g1'')
   \<and> getFamilyMembers sample_db (JStr ''a1'') (JStr ''g2'') = rosterResponse sample_db (JStr ''g2'')
   \<and> getFamilyMembers sample_db (JStr ''a1'') (JStr ''g2'')
       = respond 200 (JArr [JObj [(''userID'', JOid ''a1''), (''fullName'', JStr ''Alice Ng''),
                                  (''imageURL'', JNull), (''role'', JStr ''caregiver''),
                                  (''familialRelation'', JNull)]])"
proof -
  have b: "user_groupID bob = None" and a: "user_groupID alice = Some ''g1''"
    by (simp_all add: bob_def alice_def)
  have fi: "User_find_in sample_db (map member_user (group_members friends)) = [alice]"
    by (simp add: User_find_in_def sample_db_def friends_def alice_def bob_def)
  have um: "userMapOf [alice] = [''a1'' \<mapsto> alice]"
    by (simp add: userMapOf_def alice_def)
  have img: "user_imageURL alice = None"
    by (simp add: alice_def)
  have g2: "rosterResponse sample_db (JStr ''g2'')
       = respond 200 (JArr [JObj [(''userID'', JOid ''a1''), (''fullName'', JStr ''Alice Ng''),
                                  (''imageURL'', JNull), (''role'', JStr ''caregiver''),
                                  (''familialRelation'', JNull)]])"
    by (simp add: rosterResponse_def sample_Group_findById_g2 fi um Let_def)
      (simp add: friends_def familyMember_def sample_fullNames img or_null_def of_opt_def)
  show ?thesis
    using getFamilyMembers_target [OF sample_User_findById_b2, of "JStr ''g1''"]
      getFamilyMembers_target [OF sample_User_findById_a1, of "JStr ''g2''"]
      getFamilyMembers_target [OF sample_User_findById_a1, of JUndefined] a b g2
    by simp
qed

section \<open>Group enumeration\<close>

lemma pushAdditional_stored: "pushAdditional ags acc = acc @ stored_groupIDs ags"
  by (induction ags arbitrary: acc) (auto simp: stored_groupIDs_def split: option.splits)

lemma mapGroupID_no_null:
  "None \<notin> set ags \<Longrightarrow> mapGroupID ags = Some (map (\<lambda>x. oid_opt (ag_groupID (the x))) ags)"
proof (induction ags)
  case Nil
  then show ?case by simp
next
  case (Cons a ags)
  then show ?case by (cases a) auto
qed

lemma stored_groupIDs_all:
  "\<forall>x\<in>set ags. \<exists>g i. x = Some g \<and> ag_groupID g = Some i \<Longrightarrow>
     stored_groupIDs ags = map (\<lambda>x. the (ag_groupID (the x))) ags"
  by (induction ags) (auto simp: stored_groupIDs_def)

text \<open>
  Claim C6, as amended. For every user that the lookup finds: \<^verbatim>\<open>getAllUserGroups\<close>
  returns the primary \<^verbatim>\<open>groupID\<close> (when present) followed by the group ids of the
  \<^verbatim>\<open>additionalGroups\<close> elements that carry one, in stored order and without
  de-duplication; an element that is \<^verbatim>\<open>null\<close> or has no \<^verbatim>\<open>groupID\<close> is passed over
  (line 158), so the list has one id per element exactly when every element carries a
  group id. \<^verbatim>\<open>getAllGroups\<close>, when no element is \<^verbatim>\<open>null\<close>, returns the primary
  \<^verbatim>\<open>groupID\<close> (when present) followed by one value per element in stored order (the
  element's \<^verbatim>\<open>groupID\<close>, \<^verbatim>\<open>undefined\<close> where it has none), and \<^verbatim>\<open>totalGroups\<close> is
  0 or 1 plus the number of elements.
\<close>

theorem group_id_lists:
  assumes "User_findById d userID = Resolved (Some user)" and "truthy userID"
  shows "getAllUserGroups d userID =
           respond 200
             (JObj [(''groupIDs'',
                       JArr (map JStr ((case user_groupID user of None \<Rightarrow> [] | Some p \<Rightarrow> [p])
                                         @ stored_groupIDs (user_additionalGroups user)))),
                    (''groups'',
                       JArr (map (\<lambda>g. JObj [(''id'', JStr (group_id g)),
                                              (''name'', JStr (group_name g))])
                               (Group_find_in d
                                  ((case user_groupID user of None \<Rightarrow> [] | Some p \<Rightarrow> [p])
                                     @ stored_groupIDs (user_additionalGroups user)))))])
       \<and> ((\<forall>x\<in>set (user_additionalGroups user). \<exists>g i. x = Some g \<and> ag_groupID g = Some i) \<longrightarrow>
            stored_groupIDs (user_additionalGroups user)
              = map (\<lambda>x. the (ag_groupID (the x))) (user_additionalGroups user))
       \<and> (None \<notin> set (user_additionalGroups user) \<longrightarrow>
            status (getAllGroups d userID) = 200
          \<and> get_field (body (getAllGroups d userID)) ''groupIDs''
              = JArr ((case user_groupID user of None \<Rightarrow> [] | Some p \<Rightarrow> [JOid p])
                        @ map (\<lambda>x. oid_opt (ag_groupID (the x))) (user_additionalGroups user))
          \<and> get_field (body (getAllGroups d userID)) ''totalGroups''
              = JNum (of_nat ((case user_groupID user of None \<Rightarrow> 0 | Some p \<Rightarrow> 1)
                                + length (user_additionalGroups user))))"
proof -
  have 1: "getAllUserGroups d userID =
           respond 200
             (JObj [(''groupIDs'',
                       JArr (map JStr ((case user_groupID user of None \<Rightarrow> [] | Some p \<Rightarrow> [p])
                                         @ stored_groupIDs (user_additionalGroups user)))),
                    (''groups'',
                       JArr (map (\<lambda>g. JObj [(''id'', JStr (group_id g)),
                                              (''name'', JStr (group_name g))])
                               (Group_find_in d
                                  ((case user_groupID user of None \<Rightarrow> [] | Some p \<Rightarrow> [p])
                                     @ stored_groupIDs (user_additionalGroups user)))))])"
    using assms(1) by (simp add: getAllUserGroups_def Let_def pushAdditional_stored)
  have 3: "status (getAllGroups d userID) = 200
          \<and> get_field (body (getAllGroups d userID)) ''groupIDs''
              = JArr ((case user_groupID user of None \<Rightarrow> [] | Some p \<Rightarrow> [JOid p])
                        @ map (\<lambda>x. oid_opt (ag_groupID (the x))) (user_additionalGroups user))
          \<and> get_field (body (getAllGroups d userID)) ''totalGroups''
              = JNum (of_nat ((case user_groupID user of None \<Rightarrow> 0 | Some p \<Rightarrow> 1)
                                + length (user_additionalGroups user)))"
    if "None \<notin> set (user_additionalGroups user)"
    using assms that
    by (cases "user_additionalGroups user = []")
      (auto simp: getAllGroups_def Let_def mapGroupID_no_null get_prop_def split: option.splits)
  from 1 3 stored_groupIDs_all [of "user_additionalGroups user"] show ?thesis
    by blast
qed

text \<open>
  On the sample store: Alice has a primary group and two \<^verbatim>\<open>additionalGroups\<close>
  elements, the second without a \<^verbatim>\<open>groupID\<close>.
\<close>

theorem group_id_lists_witness:
  "get_field (body (getAllUserGroups sample_db (JStr ''a1''))) ''groupIDs''
     = JArr [JStr ''g1'', JStr ''g2'']
   \<and> get_field (body (getAllGroups sample_db (JStr ''a1''))) ''groupIDs''
     = JArr [JOid ''g1'', JOid ''g2'', JUndefined]
   \<and> get_field (body (getAllGroups sample_db (JStr ''a1''))) ''totalGroups'' = JNum 3"
proof -
  have t: "truthy (JStr ''a1'')"
    by simp
  have n: "None \<notin> set (user_additionalGroups alice)"
    by (simp add: alice_def)
  have s: "stored_groupIDs (user_additionalGroups alice) = [''g2'']"
    by (simp add: stored_groupIDs_def alice_def)
  have p: "user_groupID alice = Some ''g1''"
    by (simp add: alice_def)
  have m: "map (\<lambda>x. oid_opt (ag_groupID (the x))) (user_additionalGroups alice)
             = [JOid ''g2'', JUndefined]"
    by (simp add: alice_def oid_opt_def)
  have l: "length (user_additionalGroups alice) = 2"
    by (simp add: alice_def)
  from group_id_lists [OF sample_User_findById_a1 t] n s p m l show ?thesis
    by (simp add: get_prop_def)
qed

text \<open>
  The claim as stated fails for \<^verbatim>\<open>getAllUserGroups\<close>: Alice has a primary group and
  two \<^verbatim>\<open>additionalGroups\<close> elements, and the list has two ids, not three.
\<close>

theorem group_id_lists_counterexample:
  "User_findById sample_db (JStr ''a1'') = Resolved (Some alice)
   \<and> user_groupID alice = Some ''g1''
   \<and> length (user_additionalGroups alice) = 2
   \<and> get_field (body (getAllUserGroups sample_db (JStr ''a1''))) ''groupIDs''
       = JArr [JStr ''g1'', JStr ''g2'']
   \<and> length [JStr ''g1'', JStr ''g2''] \<noteq> 1 + length (user_additionalGroups alice)"
  by (simp add: getAllUserGroups_def sample_User_findById_a1 alice_def get_prop_def)

end
